theory Spec2Isabelle
  imports Complex_Main "HOL-Library.Sublist" "HOL-Library.Log_Nat"
begin

section \<open>Values of the program\<close>

text \<open>
  The application \<^verbatim>\<open>weather_app.py\<close> works on the JSON bodies of three endpoints,
  as Python's \<^verbatim>\<open>json\<close> module parses them. An object is the list of the items of the
  parsed \<^verbatim>\<open>dict\<close> (its keys are distinct), read with \<open>map_of\<close>. An integer literal
  parses to an unbounded \<^verbatim>\<open>int\<close>, a literal with a fraction or an exponent to a
  \<^verbatim>\<open>float\<close>; a finite float is given by the rational number it denotes. The values
  NaN, the infinities and the negative zero are outside the model. A \<open>char\<close> of a
  \<open>string\<close> stands for one code point.
\<close>

datatype json =
    JNull
  | JBool bool
  | JInt int
  | JFloat rat
  | JStr string
  | JArr "json list"
  | JObj "(string \<times> json) list"

text \<open>The exceptions of Python that the script can raise and does not catch.\<close>

datatype exn = KeyError | IndexError | TypeError | AttributeError | ValueError | OverflowError

definition bind_exn :: "exn + 'a \<Rightarrow> ('a \<Rightarrow> exn + 'b) \<Rightarrow> exn + 'b" where
  "bind_exn r f = (case r of Inl e \<Rightarrow> Inl e | Inr v \<Rightarrow> f v)"

text \<open>\<^verbatim>\<open>bool(v)\<close>, the test of an \<^verbatim>\<open>if v:\<close>.\<close>

fun truthy :: "json \<Rightarrow> bool" where
  "truthy JNull = False"
| "truthy (JBool b) = b"
| "truthy (JInt n) = (n \<noteq> 0)"
| "truthy (JFloat q) = (q \<noteq> 0)"
| "truthy (JStr s) = (s \<noteq> [])"
| "truthy (JArr xs) = (xs \<noteq> [])"
| "truthy (JObj kvs) = (kvs \<noteq> [])"

text \<open>\<^verbatim>\<open>s in t\<close> on two strings: \<open>s\<close> occurs in \<open>t\<close> as a contiguous piece.\<close>

fun occurs_in :: "string \<Rightarrow> string \<Rightarrow> bool" where
  "occurs_in s [] = (s = [])"
| "occurs_in s (c # cs) = (prefix s (c # cs) \<or> occurs_in s cs)"

text \<open>\<^verbatim>\<open>k in v\<close> for a string \<open>k\<close>.\<close>

fun key_in :: "string \<Rightarrow> json \<Rightarrow> exn + bool" where
  "key_in k (JObj kvs) = Inr (map_of kvs k \<noteq> None)"
| "key_in k (JArr xs) = Inr (JStr k \<in> set xs)"
| "key_in k (JStr s) = Inr (occurs_in k s)"
| "key_in k _ = Inl TypeError"

text \<open>\<^verbatim>\<open>v[k]\<close> for a string \<open>k\<close>.\<close>

fun subscript :: "json \<Rightarrow> string \<Rightarrow> exn + json" where
  "subscript (JObj kvs) k = (case map_of kvs k of None \<Rightarrow> Inl KeyError | Some v \<Rightarrow> Inr v)"
| "subscript _ k = Inl TypeError"

text \<open>\<^verbatim>\<open>v[i]\<close> for an index \<open>i\<close> that is not negative.\<close>

fun index :: "json \<Rightarrow> nat \<Rightarrow> exn + json" where
  "index (JArr xs) i = (if i < length xs then Inr (xs ! i) else Inl IndexError)"
| "index (JStr s) i = (if i < length s then Inr (JStr [s ! i]) else Inl IndexError)"
| "index (JObj kvs) i = Inl KeyError"
| "index _ i = Inl TypeError"

text \<open>\<^verbatim>\<open>len(v)\<close>.\<close>

fun py_len :: "json \<Rightarrow> exn + nat" where
  "py_len (JArr xs) = Inr (length xs)"
| "py_len (JStr s) = Inr (length s)"
| "py_len (JObj kvs) = Inr (length kvs)"
| "py_len _ = Inl TypeError"

text \<open>\<^verbatim>\<open>v.get(k, d)\<close>: only a \<^verbatim>\<open>dict\<close> has the method.\<close>

fun py_get :: "json \<Rightarrow> string \<Rightarrow> json \<Rightarrow> exn + json" where
  "py_get (JObj kvs) k d = Inr (case map_of kvs k of None \<Rightarrow> d | Some v \<Rightarrow> v)"
| "py_get _ k d = Inl AttributeError"

text \<open>
  The integer that a value is equal to under \<^verbatim>\<open>==\<close>, if there is one: \<^verbatim>\<open>3.0 == 3\<close> and
  \<^verbatim>\<open>True == 1\<close> hold in Python, and equal numbers have equal hashes.
\<close>

fun int_value :: "json \<Rightarrow> int option" where
  "int_value (JInt n) = Some n"
| "int_value (JFloat q) = (if q = of_int \<lfloor>q\<rfloor> then Some \<lfloor>q\<rfloor> else None)"
| "int_value (JBool b) = Some (if b then 1 else 0)"
| "int_value _ = None"

section \<open>The catalogue of weather codes\<close>

text \<open>
  A symbol of the catalogue is a pictograph outside the range of \<open>char\<close>; it is given by
  its Unicode code points. The program only passes it on to the page.
\<close>

type_synonym glyph = "nat list"

definition WEATHER_SYMBOLS :: "(int \<times> (glyph \<times> string)) list" where
  "WEATHER_SYMBOLS =
  [(0, ([0x2600, 0xFE0F], ''Clear sky'')),
   (1, ([0x1F324, 0xFE0F], ''Mainly clear'')),
   (2, ([0x1F325, 0xFE0F], ''Partly cloudy'')),
   (3, ([0x2601, 0xFE0F], ''Overcast'')),
   (45, ([0x1F32B, 0xFE0F], ''Fog'')),
   (48, ([0x1F32B, 0xFE0F], ''Depositing rime fog'')),
   (51, ([0x1F326, 0xFE0F], ''Light drizzle'')),
   (53, ([0x1F326, 0xFE0F], ''Moderate drizzle'')),
   (55, ([0x1F326, 0xFE0F], ''Dense drizzle'')),
   (56, ([0x1F327, 0xFE0F], ''Light freezing drizzle'')),
   (57, ([0x1F327, 0xFE0F], ''Dense freezing drizzle'')),
   (61, ([0x1F327, 0xFE0F], ''Slight rain'')),
   (63, ([0x1F327, 0xFE0F], ''Moderate rain'')),
   (65, ([0x1F327, 0xFE0F], ''Heavy rain'')),
   (66, ([0x1F327, 0xFE0F], ''Light freezing rain'')),
   (67, ([0x1F327, 0xFE0F], ''Heavy freezing rain'')),
   (71, ([0x1F328, 0xFE0F], ''Slight snow fall'')),
   (73, ([0x1F328, 0xFE0F], ''Moderate snow fall'')),
   (75, ([0x1F328, 0xFE0F], ''Heavy snow fall'')),
   (77, ([0x2744, 0xFE0F], ''Snow grains'')),
   (80, ([0x1F327, 0xFE0F], ''Slight rain showers'')),
   (81, ([0x1F327, 0xFE0F], ''Moderate rain showers'')),
   (82, ([0x1F327, 0xFE0F], ''Violent rain showers'')),
   (85, ([0x1F328, 0xFE0F], ''Slight snow showers'')),
   (86, ([0x1F328, 0xFE0F], ''Heavy snow showers'')),
   (95, ([0x26C8, 0xFE0F], ''Thunderstorm'')),
   (96, ([0x26C8, 0xFE0F], ''Thunderstorm with slight hail'')),
   (99, ([0x26C8, 0xFE0F], ''Thunderstorm with heavy hail''))]"

text \<open>The default of both lookups of the script: \<^verbatim>\<open>("?", "Unknown")\<close> with the glyph U+2753.\<close>

definition unknown_entry :: "glyph \<times> string" where
  "unknown_entry = ([0x2753], ''Unknown'')"

text \<open>\<^verbatim>\<open>WEATHER_SYMBOLS.get(code, unknown_entry)\<close> for an \<^verbatim>\<open>int\<close>.\<close>

definition lookup :: "int \<Rightarrow> glyph \<times> string" where
  "lookup code = (case map_of WEATHER_SYMBOLS code of None \<Rightarrow> unknown_entry | Some e \<Rightarrow> e)"

text \<open>
  The same call on a value of a response. A list or a dict is not hashable, and
  \<^verbatim>\<open>dict.get\<close> raises \<^verbatim>\<open>TypeError\<close> on it.
\<close>

fun WEATHER_SYMBOLS_get :: "json \<Rightarrow> exn + glyph \<times> string" where
  "WEATHER_SYMBOLS_get (JArr xs) = Inl TypeError"
| "WEATHER_SYMBOLS_get (JObj kvs) = Inl TypeError"
| "WEATHER_SYMBOLS_get v = Inr (case int_value v of None \<Rightarrow> unknown_entry | Some c \<Rightarrow> lookup c)"

section \<open>The animation\<close>

datatype animation = Snow | Balloons

text \<open>
  \<^verbatim>\<open>v in [c1, c2, ..]\<close> for a list of \<^verbatim>\<open>int\<close> literals: \<^verbatim>\<open>v == c\<close> for one of its elements.
\<close>

definition py_in :: "json \<Rightarrow> int list \<Rightarrow> bool" where
  "py_in v cs = (case int_value v of None \<Rightarrow> False | Some c \<Rightarrow> List.member cs c)"

text \<open>
  \<^verbatim>\<open>get_weather_animation\<close> calls \<^verbatim>\<open>st.snow()\<close>, \<^verbatim>\<open>st.balloons()\<close> or nothing; the model
  returns the call it makes.
\<close>

definition get_weather_animation :: "json \<Rightarrow> animation option" where
  "get_weather_animation weather_code =
     (if py_in weather_code [71, 73, 75, 77, 85, 86] then Some Snow
      else if py_in weather_code [95, 96, 99] then Some Balloons
      else None)"

section \<open>Dates and numbers as text\<close>

text \<open>
  \<^verbatim>\<open>pd.to_datetime(v).strftime('%a %d')\<close>. The parser of pandas is a library outside the
  repository: the model takes it as a parameter that gives the calendar date of the
  timestamp, or the exception that the expression raises. \<open>iso_to_datetime\<close> is the
  parser on the notation of the forecast endpoint, \<^verbatim>\<open>YYYY-MM-DD\<close>, in the years that
  every timestamp of pandas covers.
\<close>

record timestamp =
  year :: nat
  month :: nat
  day :: nat

type_synonym pandas = "json \<Rightarrow> exn + timestamp"

definition is_leap :: "nat \<Rightarrow> bool" where
  "is_leap y = (y mod 4 = 0 \<and> (y mod 100 \<noteq> 0 \<or> y mod 400 = 0))"

definition days_in_month :: "nat \<Rightarrow> nat \<Rightarrow> nat" where
  "days_in_month y m =
     (if m = 2 \<and> is_leap y then 29
      else [0, 31, 28, 31, 30, 31, 30, 31, 31, 30, 31, 30, 31] ! m)"

definition days_before_year :: "nat \<Rightarrow> nat" where
  "days_before_year y = (y - 1) * 365 + (y - 1) div 4 - (y - 1) div 100 + (y - 1) div 400"

definition days_before_month :: "nat \<Rightarrow> nat \<Rightarrow> nat" where
  "days_before_month y m =
     [0, 0, 31, 59, 90, 120, 151, 181, 212, 243, 273, 304, 334] ! m
       + (if 2 < m \<and> is_leap y then 1 else 0)"

definition toordinal :: "timestamp \<Rightarrow> nat" where
  "toordinal t = days_before_year (year t) + days_before_month (year t) (month t) + day t"

text \<open>Monday is 0, as in \<^verbatim>\<open>datetime.weekday\<close>.\<close>

definition weekday :: "timestamp \<Rightarrow> nat" where
  "weekday t = (toordinal t + 6) mod 7"

definition DAYNAMES :: "string list" where
  "DAYNAMES = [''Mon'', ''Tue'', ''Wed'', ''Thu'', ''Fri'', ''Sat'', ''Sun'']"

definition digit :: "nat \<Rightarrow> char" where
  "digit d = ''0123456789'' ! d"

text \<open>\<^verbatim>\<open>strftime('%a %d')\<close> in the C locale, which the script never changes.\<close>

definition strftime_a_d :: "timestamp \<Rightarrow> string" where
  "strftime_a_d t = DAYNAMES ! weekday t @ '' '' @ [digit (day t div 10), digit (day t mod 10)]"

definition is_digit :: "char \<Rightarrow> bool" where
  "is_digit c = (48 \<le> (of_char c :: nat) \<and> (of_char c :: nat) \<le> 57)"

definition number :: "string \<Rightarrow> nat" where
  "number s = foldl (\<lambda>n c. 10 * n + (of_char c - 48)) 0 s"

definition parse_iso_date :: "string \<Rightarrow> timestamp option" where
  "parse_iso_date s =
     (if length s = 10 \<and> s ! 4 = CHR ''-'' \<and> s ! 7 = CHR ''-''
         \<and> list_all is_digit (take 4 s @ take 2 (drop 5 s) @ drop 8 s)
      then
        (let y = number (take 4 s); m = number (take 2 (drop 5 s)); d = number (drop 8 s)
         in if 1678 \<le> y \<and> y \<le> 2261 \<and> 1 \<le> m \<and> m \<le> 12 \<and> 1 \<le> d \<and> d \<le> days_in_month y m
            then Some \<lparr>year = y, month = m, day = d\<rparr> else None)
      else None)"

text \<open>What is known of the library: an ISO date parses to the date it writes.\<close>

definition parses_iso :: "pandas \<Rightarrow> bool" where
  "parses_iso to_datetime = (\<forall>s t. parse_iso_date s = Some t \<longrightarrow> to_datetime (JStr s) = Inr t)"

fun iso_to_datetime :: pandas where
  "iso_to_datetime (JStr s) = (case parse_iso_date s of None \<Rightarrow> Inl ValueError | Some t \<Rightarrow> Inr t)"
| "iso_to_datetime _ = Inl ValueError"

text \<open>
  \<^verbatim>\<open>format(x, '.4f')\<close>: the exact value of the float, rounded to four decimals with ties
  to the even neighbour; the sign is that of the float.
\<close>

definition round_half_even :: "rat \<Rightarrow> int" where
  "round_half_even x =
     (let f = \<lfloor>x\<rfloor>; r = x - of_int f
      in if r < 1 / 2 then f else if 1 / 2 < r then f + 1 else if even f then f else f + 1)"

function decimal :: "nat \<Rightarrow> string" where
  "decimal n = (if n < 10 then [digit n] else decimal (n div 10) @ [digit (n mod 10)])"
  by pat_completeness auto
termination
  by (relation "measure id") auto

declare decimal.simps [simp del]

definition fixed4 :: "rat \<Rightarrow> string" where
  "fixed4 x =
     (let n = nat (round_half_even (\<bar>x\<bar> * 10000)); frac = n mod 10000
      in (if x < 0 then ''-'' else []) @ decimal (n div 10000) @ ''.''
           @ [digit (frac div 1000), digit (frac div 100 mod 10),
              digit (frac div 10 mod 10), digit (frac mod 10)])"

text \<open>
  \<^verbatim>\<open>float(n)\<close> for an \<^verbatim>\<open>int\<close>: exact up to 53 bits, the nearest float (ties to even) beyond,
  \<^verbatim>\<open>OverflowError\<close> where that is no finite float.
\<close>

definition float_of_int :: "int \<Rightarrow> exn + rat" where
  "float_of_int n =
     (let e = bitlen \<bar>n\<bar> - 53
      in if e \<le> 0 then Inr (of_int n)
         else (let v = round_half_even (of_int \<bar>n\<bar> / 2 ^ nat e) * 2 ^ nat e
               in if 2 ^ 1024 \<le> v then Inl OverflowError else Inr (of_int (sgn n * v))))"

fun format_4f :: "json \<Rightarrow> exn + string" where
  "format_4f (JFloat q) = Inr (fixed4 q)"
| "format_4f (JInt n) = bind_exn (float_of_int n) (\<lambda>q. Inr (fixed4 q))"
| "format_4f (JBool b) = Inr (fixed4 (if b then 1 else 0))"
| "format_4f (JStr s) = Inl ValueError"
| "format_4f _ = Inl TypeError"

section \<open>The upstream service and the page\<close>

text \<open>
  \<^verbatim>\<open>requests.get(url, params)\<close>, \<^verbatim>\<open>raise_for_status()\<close> and \<^verbatim>\<open>response.json()\<close> together
  either give the parsed body or raise a \<^verbatim>\<open>RequestException\<close> with its text (a failed
  connection, a timeout, a status that is not 2xx, a body that is not JSON). The
  upstream service is a parameter of the model: what it answers to each request.
\<close>

datatype request =
    GeocodingSearch string
  | CurrentWeather json json
  | DailyForecast json json

datatype http_result = RequestException string | Response json

type_synonym upstream = "request \<Rightarrow> http_result"

text \<open>
  An f-string is the list of its pieces: literal text (also a Python \<^verbatim>\<open>str\<close> put into
  it), and the values of a response that it formats.
\<close>

datatype piece = Lit string | Val json

fun text_of :: "piece list \<Rightarrow> string option" where
  "text_of [] = Some []"
| "text_of (Lit s # ps) = map_option ((@) s) (text_of ps)"
| "text_of (Val (JStr s) # ps) = map_option ((@) s) (text_of ps)"
| "text_of (Val _ # ps) = None"

text \<open>
  What one run of the script does, in order: the requests it sends and the calls of
  Streamlit that put something onto the page. A card is the \<^verbatim>\<open>st.markdown\<close> call with
  the values its HTML holds. Calls that only lay out the page (title, tabs, columns,
  the text field, the folium map, the sidebar) are left out.
\<close>

datatype event =
    HttpGet request
  | StError "piece list"
  | StSuccess "piece list"
  | StWarning "piece list"
  | StInfo "piece list"
  | StWrite "piece list"
  | StSubheader "piece list"
  | StAnimation animation
  | StyleSheet
  | TemperatureCard json
  | WindCard json
  | ConditionCard glyph string
  | StMap json json
  | ForecastCard string glyph json json string

record location =
  latitude :: json
  longitude :: json
  name :: json
  country :: json

record forecast_day =
  date :: string
  temperature_max :: json
  temperature_min :: json
  weathercode :: json

section \<open>The three fetchers\<close>

text \<open>
  Each fetcher returns the events of its call and its result, \<open>None\<close> for Python's
  \<^verbatim>\<open>None\<close>; an exception other than \<^verbatim>\<open>RequestException\<close> is not caught and ends the run.
\<close>

definition get_location_coordinates ::
  "upstream \<Rightarrow> string \<Rightarrow> exn + event list \<times> location option" where
  "get_location_coordinates up city_name =
     (case up (GeocodingSearch city_name) of
        RequestException e \<Rightarrow>
          Inr ([HttpGet (GeocodingSearch city_name),
                StError [Lit ''Error fetching location data: '', Lit e]], None)
      | Response data \<Rightarrow>
          bind_exn (key_in ''results'' data) (\<lambda>present.
          bind_exn (if present
                    then bind_exn (subscript data ''results'') (\<lambda>r.
                         bind_exn (py_len r) (\<lambda>n. Inr (0 < n)))
                    else Inr False) (\<lambda>found.
          if found then
            bind_exn (subscript data ''results'') (\<lambda>r.
            bind_exn (index r 0) (\<lambda>loc.
            bind_exn (subscript loc ''latitude'') (\<lambda>la.
            bind_exn (subscript loc ''longitude'') (\<lambda>lo.
            bind_exn (py_get loc ''name'' (JStr city_name)) (\<lambda>nm.
            bind_exn (py_get loc ''country'' (JStr [])) (\<lambda>co.
              Inr ([HttpGet (GeocodingSearch city_name)],
                   Some \<lparr>latitude = la, longitude = lo, name = nm, country = co\<rparr>)))))))
          else Inr ([HttpGet (GeocodingSearch city_name)], None))))"

definition get_weather_data ::
  "upstream \<Rightarrow> json \<Rightarrow> json \<Rightarrow> exn + event list \<times> json option" where
  "get_weather_data up lat lon =
     (case up (CurrentWeather lat lon) of
        RequestException e \<Rightarrow>
          Inr ([HttpGet (CurrentWeather lat lon),
                StError [Lit ''Error fetching weather data: '', Lit e]], None)
      | Response data \<Rightarrow>
          bind_exn (key_in ''current_weather'' data) (\<lambda>present.
          if present then
            bind_exn (subscript data ''current_weather'') (\<lambda>w.
              Inr ([HttpGet (CurrentWeather lat lon)], Some w))
          else Inr ([HttpGet (CurrentWeather lat lon)], None)))"

text \<open>One pass of the loop: the dict appended for index \<open>i\<close>, its items in source order.\<close>

definition forecast_entry :: "pandas \<Rightarrow> json \<Rightarrow> nat \<Rightarrow> exn + forecast_day" where
  "forecast_entry to_datetime data i =
     bind_exn (subscript data ''daily'') (\<lambda>d1.
     bind_exn (subscript d1 ''time'') (\<lambda>ts.
     bind_exn (index ts i) (\<lambda>t.
     bind_exn (to_datetime t) (\<lambda>stamp.
     bind_exn (subscript data ''daily'') (\<lambda>d2.
     bind_exn (subscript d2 ''temperature_2m_max'') (\<lambda>maxs.
     bind_exn (index maxs i) (\<lambda>mx.
     bind_exn (subscript data ''daily'') (\<lambda>d3.
     bind_exn (subscript d3 ''temperature_2m_min'') (\<lambda>mins.
     bind_exn (index mins i) (\<lambda>mn.
     bind_exn (subscript data ''daily'') (\<lambda>d4.
     bind_exn (subscript d4 ''weathercode'') (\<lambda>codes.
     bind_exn (index codes i) (\<lambda>c.
       Inr \<lparr>date = strftime_a_d stamp, temperature_max = mx,
            temperature_min = mn, weathercode = c\<rparr>)))))))))))))"

text \<open>A \<^verbatim>\<open>for\<close> loop that appends \<open>f i\<close> for each \<open>i\<close>; the first exception ends it.\<close>

fun collect :: "('a \<Rightarrow> exn + 'b) \<Rightarrow> 'a list \<Rightarrow> exn + 'b list" where
  "collect f [] = Inr []"
| "collect f (i # is) = bind_exn (f i) (\<lambda>x. bind_exn (collect f is) (\<lambda>xs. Inr (x # xs)))"

definition get_weather_forecast ::
  "pandas \<Rightarrow> upstream \<Rightarrow> json \<Rightarrow> json \<Rightarrow> exn + event list \<times> forecast_day list option" where
  "get_weather_forecast to_datetime up lat lon =
     (case up (DailyForecast lat lon) of
        RequestException e \<Rightarrow>
          Inr ([HttpGet (DailyForecast lat lon),
                StError [Lit ''Error fetching forecast data: '', Lit e]], None)
      | Response data \<Rightarrow>
          bind_exn (key_in ''daily'' data) (\<lambda>present.
          if present then
            bind_exn (subscript data ''daily'') (\<lambda>daily.
            bind_exn (subscript daily ''time'') (\<lambda>ts.
            bind_exn (py_len ts) (\<lambda>n.
            bind_exn (collect (forecast_entry to_datetime data) [0..<n]) (\<lambda>forecast.
              Inr ([HttpGet (DailyForecast lat lon)], Some forecast)))))
          else Inr ([HttpGet (DailyForecast lat lon)], None)))"

section \<open>The script\<close>

text \<open>
  The only state kept between runs is \<^verbatim>\<open>st.session_state['location_data']\<close>. Each part
  of the script takes its value and returns the events of the part and the new value.
\<close>

definition quote :: string where
  "quote = [CHR 0x27]"

definition search_tab ::
  "upstream \<Rightarrow> string \<Rightarrow> location option \<Rightarrow> exn + event list \<times> location option" where
  "search_tab up city session =
     (if city \<noteq> [] then
        bind_exn (get_location_coordinates up city) (\<lambda>(evs, location_data).
          case location_data of
            Some l \<Rightarrow>
              Inr (evs @ [StSuccess [Lit ''Selected: '', Val (name l), Lit '', '',
                                     Val (country l)]], Some l)
          | None \<Rightarrow>
              Inr (evs @ [StError [Lit (''Could not find location: '' @ quote), Lit city,
                                   Lit (quote @ ''. Please try again.'')]], None))
      else Inr ([], session))"

text \<open>
  \<open>map_data\<close> is what the map component returns, \<open>JNull\<close> for \<^verbatim>\<open>None\<close>; the test is
  \<^verbatim>\<open>map_data and 'last_clicked' in map_data and map_data['last_clicked']\<close>, which stops
  at its first false operand.
\<close>

definition clicked :: "json \<Rightarrow> exn + bool" where
  "clicked map_data =
     (if truthy map_data then
        bind_exn (key_in ''last_clicked'' map_data) (\<lambda>present.
        if present then bind_exn (subscript map_data ''last_clicked'') (\<lambda>c. Inr (truthy c))
        else Inr False)
      else Inr False)"

definition map_tab ::
  "bool \<Rightarrow> json \<Rightarrow> location option \<Rightarrow> exn + event list \<times> location option" where
  "map_tab FOLIUM_AVAILABLE map_data session =
     (if FOLIUM_AVAILABLE then
        bind_exn (clicked map_data) (\<lambda>c.
        if c then
          bind_exn (subscript map_data ''last_clicked'') (\<lambda>c1.
          bind_exn (subscript c1 ''lat'') (\<lambda>selected_lat.
          bind_exn (subscript map_data ''last_clicked'') (\<lambda>c2.
          bind_exn (subscript c2 ''lng'') (\<lambda>selected_lon.
          bind_exn (format_4f selected_lat) (\<lambda>lat_text.
          bind_exn (format_4f selected_lon) (\<lambda>lon_text.
          let location_data =
                \<lparr>latitude = selected_lat, longitude = selected_lon,
                 name = JStr (''Lat: '' @ lat_text @ '', Lon: '' @ lon_text),
                 country = JStr []\<rparr>
          in Inr ([StWrite [Lit ''Click on the map to select a location:''],
                   StSuccess [Lit ''Selected location: '', Val (name location_data)]],
                  Some location_data)))))))
        else Inr ([StWrite [Lit ''Click on the map to select a location:'']], session))
      else
        Inr ([StWarning [Lit ''Map functionality is not available. Please install folium and streamlit-folium to use map selection.''],
              StInfo [Lit ''You can still use the city search feature above.'']], session))"

text \<open>The cards of the forecast: \<^verbatim>\<open>forecast_data[:5]\<close>, one lookup and one card per day.\<close>

definition forecast_card :: "forecast_day \<Rightarrow> exn + event" where
  "forecast_card d =
     bind_exn (WEATHER_SYMBOLS_get (weathercode d)) (\<lambda>(day_symbol, day_desc).
       Inr (ForecastCard (date d) day_symbol (temperature_max d) (temperature_min d) day_desc))"

definition show_forecast :: "pandas \<Rightarrow> upstream \<Rightarrow> location \<Rightarrow> exn + event list" where
  "show_forecast to_datetime up l =
     bind_exn (get_weather_forecast to_datetime up (latitude l) (longitude l))
       (\<lambda>(evs, forecast_data).
          case forecast_data of
            Some (d # ds) \<Rightarrow>
              bind_exn (collect forecast_card (take 5 (d # ds))) (\<lambda>cards.
                Inr ([StSubheader [Lit ''5-Day Weather Forecast'']] @ evs @ cards))
          | _ \<Rightarrow>
              Inr ([StSubheader [Lit ''5-Day Weather Forecast'']] @ evs
                     @ [StWarning [Lit ''Could not retrieve forecast data.'']]))"

text \<open>
  The display block. \<^verbatim>\<open>if weather_data:\<close> is false for \<^verbatim>\<open>None\<close> and for a value that is
  empty or zero. The forecast is requested inside the branch of a current weather.
\<close>

definition display :: "pandas \<Rightarrow> upstream \<Rightarrow> location option \<Rightarrow> exn + event list" where
  "display to_datetime up session =
     (case session of
        None \<Rightarrow> Inr []
      | Some l \<Rightarrow>
          bind_exn (get_weather_data up (latitude l) (longitude l)) (\<lambda>(evs, weather_data).
          let heading = StSubheader [Lit ''Weather for '', Val (name l), Lit '', '',
                                     Val (country l)] # evs
          in if (case weather_data of None \<Rightarrow> False | Some w \<Rightarrow> truthy w) then
               bind_exn (subscript (the weather_data) ''temperature'') (\<lambda>temp.
               bind_exn (subscript (the weather_data) ''windspeed'') (\<lambda>wind.
               bind_exn (subscript (the weather_data) ''weathercode'') (\<lambda>weather_code.
               bind_exn (WEATHER_SYMBOLS_get weather_code) (\<lambda>(symbol, description).
               bind_exn (show_forecast to_datetime up l) (\<lambda>forecast_events.
                 Inr (heading
                      @ [StyleSheet, TemperatureCard temp, WindCard wind,
                         ConditionCard symbol description]
                      @ (case get_weather_animation weather_code of
                           None \<Rightarrow> [] | Some a \<Rightarrow> [StAnimation a])
                      @ [StSubheader [Lit ''Location Map''],
                         StMap (latitude l) (longitude l)]
                      @ forecast_events))))))
             else
               Inr (heading
                    @ [StError [Lit ''Could not retrieve weather data for this location.'']])))"

text \<open>One run of the script: the two tabs, then the display of the stored location.\<close>

definition run ::
  "pandas \<Rightarrow> upstream \<Rightarrow> bool \<Rightarrow> string \<Rightarrow> json \<Rightarrow> location option
     \<Rightarrow> exn + event list \<times> location option" where
  "run to_datetime up FOLIUM_AVAILABLE city map_data session =
     bind_exn (search_tab up city session) (\<lambda>(evs1, s1).
     bind_exn (map_tab FOLIUM_AVAILABLE map_data s1) (\<lambda>(evs2, s2).
     bind_exn (display to_datetime up s2) (\<lambda>evs3.
       Inr (evs1 @ evs2 @ evs3, s2))))"

section \<open>Example responses\<close>

text \<open>Answers of the upstream service and stored locations that the examples below use.\<close>

definition london :: upstream where
  "london r = Response (JObj [(''results'',
      JArr [JObj [(''name'', JStr ''London''), (''latitude'', JFloat (515085 / 10000)),
                  (''longitude'', JFloat (- 1257 / 10000)),
                  (''country'', JStr ''United Kingdom'')]])])"

definition nameless :: upstream where
  "nameless r = Response (JObj [(''results'',
      JArr [JObj [(''latitude'', JInt 10), (''longitude'', JInt 20)]])])"

definition nowhere :: upstream where
  "nowhere r = Response (JObj [(''generationtime_ms'', JFloat (1 / 2))])"

definition no_results :: upstream where
  "no_results r = Response (JObj [(''results'', JArr [])])"

definition paris :: location where
  "paris = \<lparr>latitude = JFloat (488566 / 10000), longitude = JFloat (23522 / 10000),
            name = JStr ''Paris'', country = JStr ''France''\<rparr>"

definition forecast_body :: json where
  "forecast_body = JObj [(''timezone'', JStr ''Europe/Paris''),
     (''daily'', JObj
        [(''time'', JArr [JStr ''2024-01-15'', JStr ''2024-01-16'', JStr ''2024-01-17'',
                          JStr ''2024-01-18'', JStr ''2024-01-19'']),
         (''temperature_2m_max'', JArr [JFloat (71 / 10), JFloat (65 / 10), JInt 4,
                                        JFloat (38 / 10), JFloat (52 / 10)]),
         (''temperature_2m_min'', JArr [JFloat (12 / 10), JFloat (- 3 / 10), JInt (- 2),
                                        JFloat (- 15 / 10), JFloat (4 / 10)]),
         (''weathercode'', JArr [JInt 3, JInt 61, JInt 71, JInt 0, JInt 95])])]"

definition five_days :: upstream where
  "five_days r = Response forecast_body"

text \<open>Two days in \<^verbatim>\<open>time\<close>; the other arrays longer, or one of them shorter.\<close>

definition longer_others :: upstream where
  "longer_others r = Response (JObj [(''daily'', JObj
        [(''time'', JArr [JStr ''2024-02-28'', JStr ''2024-02-29'']),
         (''temperature_2m_max'', JArr [JInt 9, JInt 8, JInt 7]),
         (''temperature_2m_min'', JArr [JInt 1, JInt 2, JInt 3]),
         (''weathercode'', JArr [JInt 0, JInt 1, JInt 2, JInt 3])])])"

definition short_max :: upstream where
  "short_max r = Response (JObj [(''daily'', JObj
        [(''time'', JArr [JStr ''2024-02-28'', JStr ''2024-02-29'']),
         (''temperature_2m_max'', JArr [JInt 9]),
         (''temperature_2m_min'', JArr [JInt 1, JInt 2]),
         (''weathercode'', JArr [JInt 0, JInt 1])])])"

text \<open>The click of the specification, (51.5074, -0.1278), as the two floats of Python.\<close>

definition clicked_map :: json where
  "clicked_map = JObj [(''last_clicked'',
      JObj [(''lat'', JFloat (7249022107713221 / 140737488355328)),
            (''lng'', JFloat (- 4604480259023595 / 36028797018963968))])]"

text \<open>The current weather fails, the forecast endpoint answers.\<close>

definition weather_down :: upstream where
  "weather_down r =
     (case r of
        CurrentWeather la lo \<Rightarrow> RequestException ''Connection timed out''
      | _ \<Rightarrow> Response forecast_body)"


section \<open>Properties\<close>

lemma bind_exn_Inr [simp]: "bind_exn (Inr v) f = f v"
  by (simp add: bind_exn_def)

lemma bind_exn_Inl [simp]: "bind_exn (Inl e) f = Inl e"
  by (simp add: bind_exn_def)

subsection \<open>The catalogue\<close>

lemma distinct_codes: "distinct (map fst WEATHER_SYMBOLS)"
  by (simp add: WEATHER_SYMBOLS_def)

lemma codes_of_catalogue:
  "fst ` set WEATHER_SYMBOLS =
     {0, 1, 2, 3, 45, 48, 51, 53, 55, 56, 57, 61, 63, 65, 66, 67, 71, 73, 75, 77,
      80, 81, 82, 85, 86, 95, 96, 99}"
  by (simp add: WEATHER_SYMBOLS_def)

text \<open>
  C1. The lookup of the catalogue is total. Each of the 28 codes of the table gives its
  pair of symbol and description, row by row as the table of the script has them; every
  other integer gives the entry \<^verbatim>\<open>("?", "Unknown")\<close>, whose symbol is U+2753; and the call of
  the script on an integer of a response returns that value and never raises.
\<close>

theorem lookup_total:
  "lookup 0 = ([0x2600, 0xFE0F], ''Clear sky'')
   \<and> lookup 1 = ([0x1F324, 0xFE0F], ''Mainly clear'')
   \<and> lookup 2 = ([0x1F325, 0xFE0F], ''Partly cloudy'')
   \<and> lookup 3 = ([0x2601, 0xFE0F], ''Overcast'')
   \<and> lookup 45 = ([0x1F32B, 0xFE0F], ''Fog'')
   \<and> lookup 48 = ([0x1F32B, 0xFE0F], ''Depositing rime fog'')
   \<and> lookup 51 = ([0x1F326, 0xFE0F], ''Light drizzle'')
   \<and> lookup 53 = ([0x1F326, 0xFE0F], ''Moderate drizzle'')
   \<and> lookup 55 = ([0x1F326, 0xFE0F], ''Dense drizzle'')
   \<and> lookup 56 = ([0x1F327, 0xFE0F], ''Light freezing drizzle'')
   \<and> lookup 57 = ([0x1F327, 0xFE0F], ''Dense freezing drizzle'')
   \<and> lookup 61 = ([0x1F327, 0xFE0F], ''Slight rain'')
   \<and> lookup 63 = ([0x1F327, 0xFE0F], ''Moderate rain'')
   \<and> lookup 65 = ([0x1F327, 0xFE0F], ''Heavy rain'')
   \<and> lookup 66 = ([0x1F327, 0xFE0F], ''Light freezing rain'')
   \<and> lookup 67 = ([0x1F327, 0xFE0F], ''Heavy freezing rain'')
   \<and> lookup 71 = ([0x1F328, 0xFE0F], ''Slight snow fall'')
   \<and> lookup 73 = ([0x1F328, 0xFE0F], ''Moderate snow fall'')
   \<and> lookup 75 = ([0x1F328, 0xFE0F], ''Heavy snow fall'')
   \<and> lookup 77 = ([0x2744, 0xFE0F], ''Snow grains'')
   \<and> lookup 80 = ([0x1F327, 0xFE0F], ''Slight rain showers'')
   \<and> lookup 81 = ([0x1F327, 0xFE0F], ''Moderate rain showers'')
   \<and> lookup 82 = ([0x1F327, 0xFE0F], ''Violent rain showers'')
   \<and> lookup 85 = ([0x1F328, 0xFE0F], ''Slight snow showers'')
   \<and> lookup 86 = ([0x1F328, 0xFE0F], ''Heavy snow showers'')
   \<and> lookup 95 = ([0x26C8, 0xFE0F], ''Thunderstorm'')
   \<and> lookup 96 = ([0x26C8, 0xFE0F], ''Thunderstorm with slight hail'')
   \<and> lookup 99 = ([0x26C8, 0xFE0F], ''Thunderstorm with heavy hail'')
   \<and> (code \<notin> {0, 1, 2, 3, 45, 48, 51, 53, 55, 56, 57, 61, 63, 65, 66, 67, 71, 73, 75, 77,
                80, 81, 82, 85, 86, 95, 96, 99} \<longrightarrow> lookup code = ([0x2753], ''Unknown''))
   \<and> WEATHER_SYMBOLS_get (JInt code) = Inr (lookup code)"
proof -
  have absent: "lookup code = ([0x2753], ''Unknown'')"
    if "code \<notin> {0, 1, 2, 3, 45, 48, 51, 53, 55, 56, 57, 61, 63, 65, 66, 67, 71, 73, 75, 77,
                80, 81, 82, 85, 86, 95, 96, 99}"
  proof -
    from that have "code \<notin> fst ` set WEATHER_SYMBOLS" by (simp add: codes_of_catalogue)
    then have "map_of WEATHER_SYMBOLS code = None" by (simp add: map_of_eq_None_iff)
    then show ?thesis by (simp add: lookup_def unknown_entry_def)
  qed
  have call: "WEATHER_SYMBOLS_get (JInt code) = Inr (lookup code)" by simp
  have rows:
    "lookup 0 = ([0x2600, 0xFE0F], ''Clear sky'')"
    "lookup 1 = ([0x1F324, 0xFE0F], ''Mainly clear'')"
    "lookup 2 = ([0x1F325, 0xFE0F], ''Partly cloudy'')"
    "lookup 3 = ([0x2601, 0xFE0F], ''Overcast'')"
    "lookup 45 = ([0x1F32B, 0xFE0F], ''Fog'')"
    "lookup 48 = ([0x1F32B, 0xFE0F], ''Depositing rime fog'')"
    "lookup 51 = ([0x1F326, 0xFE0F], ''Light drizzle'')"
    "lookup 53 = ([0x1F326, 0xFE0F], ''Moderate drizzle'')"
    "lookup 55 = ([0x1F326, 0xFE0F], ''Dense drizzle'')"
    "lookup 56 = ([0x1F327, 0xFE0F], ''Light freezing drizzle'')"
    "lookup 57 = ([0x1F327, 0xFE0F], ''Dense freezing drizzle'')"
    "lookup 61 = ([0x1F327, 0xFE0F], ''Slight rain'')"
    "lookup 63 = ([0x1F327, 0xFE0F], ''Moderate rain'')"
    "lookup 65 = ([0x1F327, 0xFE0F], ''Heavy rain'')"
    "lookup 66 = ([0x1F327, 0xFE0F], ''Light freezing rain'')"
    "lookup 67 = ([0x1F327, 0xFE0F], ''Heavy freezing rain'')"
    "lookup 71 = ([0x1F328, 0xFE0F], ''Slight snow fall'')"
    "lookup 73 = ([0x1F328, 0xFE0F], ''Moderate snow fall'')"
    "lookup 75 = ([0x1F328, 0xFE0F], ''Heavy snow fall'')"
    "lookup 77 = ([0x2744, 0xFE0F], ''Snow grains'')"
    "lookup 80 = ([0x1F327, 0xFE0F], ''Slight rain showers'')"
    "lookup 81 = ([0x1F327, 0xFE0F], ''Moderate rain showers'')"
    "lookup 82 = ([0x1F327, 0xFE0F], ''Violent rain showers'')"
    "lookup 85 = ([0x1F328, 0xFE0F], ''Slight snow showers'')"
    "lookup 86 = ([0x1F328, 0xFE0F], ''Heavy snow showers'')"
    "lookup 95 = ([0x26C8, 0xFE0F], ''Thunderstorm'')"
    "lookup 96 = ([0x26C8, 0xFE0F], ''Thunderstorm with slight hail'')"
    "lookup 99 = ([0x26C8, 0xFE0F], ''Thunderstorm with heavy hail'')"
    by (simp_all add: lookup_def WEATHER_SYMBOLS_def)
  show ?thesis
    by (intro conjI impI) (rule rows call | erule absent)+
qed

theorem lookup_total_witness:
  "lookup 3 = ([0x2601, 0xFE0F], ''Overcast'') \<and> lookup 13 = ([0x2753], ''Unknown'')
   \<and> lookup (- 1) = ([0x2753], ''Unknown'')
   \<and> WEATHER_SYMBOLS_get (JInt 13) = Inr ([0x2753], ''Unknown'')"
  using lookup_total [of 13] lookup_total [of "- 1"] by simp

subsection \<open>The animation\<close>

text \<open>
  C8. The trigger for a weather code: the codes 71, 73, 75, 77, 85, 86 give the snow
  effect, the codes 95, 96, 99 the balloons (the celebration), every other code nothing.
\<close>

theorem animation_trigger:
  "(c \<in> {71, 73, 75, 77, 85, 86} \<longrightarrow> get_weather_animation (JInt c) = Some Snow)
   \<and> (c \<in> {95, 96, 99} \<longrightarrow> get_weather_animation (JInt c) = Some Balloons)
   \<and> (c \<notin> {71, 73, 75, 77, 85, 86} \<union> {95, 96, 99} \<longrightarrow> get_weather_animation (JInt c) = None)"
  by (auto simp add: get_weather_animation_def py_in_def)

theorem animation_trigger_witness:
  "get_weather_animation (JInt 77) = Some Snow
   \<and> get_weather_animation (JInt 96) = Some Balloons
   \<and> get_weather_animation (JInt 3) = None"
  using animation_trigger [of 77] animation_trigger [of 96] animation_trigger [of 3]
  by simp

subsection \<open>The geocoder and the search tab\<close>

text \<open>
  C9. A response with a match: latitude, longitude, name and country of the first match
  go into the location; a country that the match lacks is the empty string.
\<close>

theorem geocoding_success:
  assumes "up (GeocodingSearch city) = Response (JObj kvs)"
    and "map_of kvs ''results'' = Some (JArr (JObj hit # rest))"
    and "map_of hit ''latitude'' = Some la"
    and "map_of hit ''longitude'' = Some lo"
  shows "get_location_coordinates up city =
           Inr ([HttpGet (GeocodingSearch city)],
                Some \<lparr>latitude = la, longitude = lo,
                      name = (case map_of hit ''name'' of None \<Rightarrow> JStr city | Some n \<Rightarrow> n),
                      country = (case map_of hit ''country'' of None \<Rightarrow> JStr [] | Some c \<Rightarrow> c)\<rparr>)"
  using assms by (simp add: get_location_coordinates_def)

theorem geocoding_success_witness:
  "get_location_coordinates london ''London'' =
     Inr ([HttpGet (GeocodingSearch ''London'')],
          Some \<lparr>latitude = JFloat (515085 / 10000), longitude = JFloat (- 1257 / 10000),
                name = JStr ''London'', country = JStr ''United Kingdom''\<rparr>)
   \<and> get_location_coordinates nameless ''Atlantis'' =
     Inr ([HttpGet (GeocodingSearch ''Atlantis'')],
          Some \<lparr>latitude = JInt 10, longitude = JInt 20,
                name = JStr ''Atlantis'', country = JStr []\<rparr>)"
  using geocoding_success [of london "''London''" _ _ "[]" "JFloat (515085 / 10000)"
      "JFloat (- 1257 / 10000)"]
    geocoding_success [of nameless "''Atlantis''" _ _ "[]" "JInt 10" "JInt 20"]
  by (simp add: london_def nameless_def)

text \<open>
  C10. A match without a name: the name of the location is the text that the user
  searched for. The search tab calls the geocoder only for a text that is not empty, so
  the name that it stores is neither absent nor empty.
\<close>

theorem name_falls_back_to_query:
  assumes "up (GeocodingSearch city) = Response (JObj kvs)"
    and "map_of kvs ''results'' = Some (JArr (JObj hit # rest))"
    and "map_of hit ''latitude'' = Some la"
    and "map_of hit ''longitude'' = Some lo"
    and "map_of hit ''name'' = None"
    and "l = \<lparr>latitude = la, longitude = lo, name = JStr city,
               country = (case map_of hit ''country'' of None \<Rightarrow> JStr [] | Some c \<Rightarrow> c)\<rparr>"
  shows "get_location_coordinates up city = Inr ([HttpGet (GeocodingSearch city)], Some l)
     \<and> (city \<noteq> [] \<longrightarrow>
          search_tab up city session =
            Inr ([HttpGet (GeocodingSearch city),
                  StSuccess [Lit ''Selected: '', Val (JStr city), Lit '', '', Val (country l)]],
                 Some l)
          \<and> name l \<noteq> JStr [] \<and> name l \<noteq> JNull)
     \<and> (city = [] \<longrightarrow> search_tab up city session = Inr ([], session))"
  using assms by (simp add: get_location_coordinates_def search_tab_def)

theorem name_falls_back_to_query_witness:
  "search_tab nameless ''Atlantis'' None =
     Inr ([HttpGet (GeocodingSearch ''Atlantis''),
           StSuccess [Lit ''Selected: '', Val (JStr ''Atlantis''), Lit '', '', Val (JStr [])]],
          Some \<lparr>latitude = JInt 10, longitude = JInt 20, name = JStr ''Atlantis'',
                country = JStr []\<rparr>)"
  using name_falls_back_to_query [of nameless "''Atlantis''"
      "[(''results'', JArr [JObj [(''latitude'', JInt 10), (''longitude'', JInt 20)]])]"
      "[(''latitude'', JInt 10), (''longitude'', JInt 20)]" "[]" "JInt 10" "JInt 20" _ None]
  by (simp add: nameless_def)

subsection \<open>Dates and the loop of the forecast\<close>

lemma digit_chars:
  "char_of (48::nat) = CHR ''0''" "char_of (49::nat) = CHR ''1''" "char_of (50::nat) = CHR ''2''"
  "char_of (51::nat) = CHR ''3''" "char_of (52::nat) = CHR ''4''" "char_of (53::nat) = CHR ''5''"
  "char_of (54::nat) = CHR ''6''" "char_of (55::nat) = CHR ''7''" "char_of (56::nat) = CHR ''8''"
  "char_of (57::nat) = CHR ''9''"
  by code_simp+

lemma digit_of_char:
  assumes "is_digit c"
  shows "digit (of_char c - 48) = c"
proof -
  define n :: nat where "n = of_char c"
  have c: "c = char_of n" by (simp add: n_def)
  from assms have "48 \<le> n" "n \<le> 57"
    unfolding is_digit_def n_def [symmetric] by auto
  then have "n = 48 \<or> n = 49 \<or> n = 50 \<or> n = 51 \<or> n = 52 \<or> n = 53 \<or> n = 54 \<or> n = 55
               \<or> n = 56 \<or> n = 57"
    by arith
  then show ?thesis
    unfolding n_def [symmetric] c
    by (elim disjE) (simp_all add: digit_def digit_chars)
qed

lemma ten_chars:
  assumes "length s = 10"
  obtains a b c d e f g h i j where "s = [a, b, c, d, e, f, g, h, i, j]"
proof -
  from assms have "\<exists>a b c d e f g h i j. s = [a, b, c, d, e, f, g, h, i, j]"
    by (simp add: eval_nat_numeral length_Suc_conv) blast
  then show ?thesis using that by blast
qed

lemma number_two:
  "number [a, b] = 10 * (of_char a - 48) + (of_char b - 48)"
  by (simp add: number_def)

lemma is_digit_bounds: "is_digit c \<Longrightarrow> (of_char c :: nat) - 48 < 10"
  by (auto simp add: is_digit_def)

lemma two_digits:
  assumes "is_digit a" "is_digit b"
  shows "[digit (number [a, b] div 10), digit (number [a, b] mod 10)] = [a, b]"
proof -
  have "(of_char b :: nat) - 48 < 10" using assms(2) by (rule is_digit_bounds)
  then have "number [a, b] div 10 = of_char a - 48" "number [a, b] mod 10 = of_char b - 48"
    by (simp_all add: number_two)
  then show ?thesis using assms by (simp add: digit_of_char)
qed

lemma weekday_less: "weekday t < 7"
  by (simp add: weekday_def)

lemma label_of_iso_date:
  assumes "parse_iso_date s = Some t"
  shows "strftime_a_d t = DAYNAMES ! weekday t @ '' '' @ drop 8 s"
proof -
  from assms have len: "length s = 10"
    by (auto simp add: parse_iso_date_def split: if_splits)
  then obtain a b c d e f g h i j where s: "s = [a, b, c, d, e, f, g, h, i, j]"
    by (rule ten_chars)
  from assms have "is_digit i" "is_digit j" and d: "day t = number [i, j]"
    unfolding s by (auto simp add: parse_iso_date_def Let_def split: if_splits)
  then show ?thesis
    by (simp add: strftime_a_d_def s two_digits)
qed

lemma parses_iso_iso_to_datetime: "parses_iso iso_to_datetime"
  by (simp add: parses_iso_def)

lemma collect_all_Inr:
  "(\<And>i. i \<in> set js \<Longrightarrow> g i = Inr (f i)) \<Longrightarrow> collect g js = Inr (map f js)"
  by (induction js) simp_all

lemma collect_first_Inl:
  "(\<And>i. i \<in> set pre \<Longrightarrow> g i = Inr (f i)) \<Longrightarrow> g j = Inl e
     \<Longrightarrow> collect g (pre @ j # post) = Inl e"
  by (induction pre) simp_all

lemma forecast_entry_Inr:
  assumes "map_of kvs ''daily'' = Some (JObj daily)"
    and "map_of daily ''time'' = Some (JArr ts)"
    and "map_of daily ''temperature_2m_max'' = Some (JArr maxs)"
    and "map_of daily ''temperature_2m_min'' = Some (JArr mins)"
    and "map_of daily ''weathercode'' = Some (JArr codes)"
    and "i < length ts" "i < length maxs" "i < length mins" "i < length codes"
    and "to_datetime (ts ! i) = Inr stamp"
  shows "forecast_entry to_datetime (JObj kvs) i =
           Inr \<lparr>date = strftime_a_d stamp, temperature_max = maxs ! i,
                temperature_min = mins ! i, weathercode = codes ! i\<rparr>"
  using assms by (simp add: forecast_entry_def)

lemma forecast_entry_IndexError:
  assumes "map_of kvs ''daily'' = Some (JObj daily)"
    and "map_of daily ''time'' = Some (JArr ts)"
    and "map_of daily ''temperature_2m_max'' = Some (JArr maxs)"
    and "map_of daily ''temperature_2m_min'' = Some (JArr mins)"
    and "map_of daily ''weathercode'' = Some (JArr codes)"
    and "i < length ts"
    and "length maxs \<le> i \<or> length mins \<le> i \<or> length codes \<le> i"
    and "to_datetime (ts ! i) = Inr stamp"
  shows "forecast_entry to_datetime (JObj kvs) i = Inl IndexError"
  using assms by (auto simp add: forecast_entry_def)

lemma forecast_of_time_indices:
  assumes "up (DailyForecast la lo) = Response (JObj kvs)"
    and "map_of kvs ''daily'' = Some (JObj daily)"
    and "map_of daily ''time'' = Some (JArr ts)"
    and "map_of daily ''temperature_2m_max'' = Some (JArr maxs)"
    and "map_of daily ''temperature_2m_min'' = Some (JArr mins)"
    and "map_of daily ''weathercode'' = Some (JArr codes)"
    and "\<And>i. i < length ts \<Longrightarrow> to_datetime (ts ! i) = Inr (stamps ! i)"
    and "length ts \<le> length maxs" "length ts \<le> length mins" "length ts \<le> length codes"
  shows "get_weather_forecast to_datetime up la lo =
           Inr ([HttpGet (DailyForecast la lo)],
                Some (map (\<lambda>i. \<lparr>date = strftime_a_d (stamps ! i), temperature_max = maxs ! i,
                                 temperature_min = mins ! i, weathercode = codes ! i\<rparr>)
                          [0..<length ts]))"
proof -
  have "collect (forecast_entry to_datetime (JObj kvs)) [0..<length ts] =
          Inr (map (\<lambda>i. \<lparr>date = strftime_a_d (stamps ! i), temperature_max = maxs ! i,
                          temperature_min = mins ! i, weathercode = codes ! i\<rparr>)
                   [0..<length ts])"
  proof (rule collect_all_Inr)
    fix i assume "i \<in> set [0..<length ts]"
    then have i: "i < length ts" by simp
    with assms(8-10) have "i < length maxs" "i < length mins" "i < length codes" by simp_all
    with assms(2-6) i
    show "forecast_entry to_datetime (JObj kvs) i =
            Inr \<lparr>date = strftime_a_d (stamps ! i), temperature_max = maxs ! i,
                 temperature_min = mins ! i, weathercode = codes ! i\<rparr>"
      using assms(7) by (intro forecast_entry_Inr) simp_all
  qed
  with assms(1-3) show ?thesis
    by (simp add: get_weather_forecast_def)
qed

lemma forecast_short_array:
  assumes "up (DailyForecast la lo) = Response (JObj kvs)"
    and "map_of kvs ''daily'' = Some (JObj daily)"
    and "map_of daily ''time'' = Some (JArr ts)"
    and "map_of daily ''temperature_2m_max'' = Some (JArr maxs)"
    and "map_of daily ''temperature_2m_min'' = Some (JArr mins)"
    and "map_of daily ''weathercode'' = Some (JArr codes)"
    and "\<And>i. i < length ts \<Longrightarrow> to_datetime (ts ! i) = Inr (stamps ! i)"
    and "length maxs < length ts \<or> length mins < length ts \<or> length codes < length ts"
  shows "get_weather_forecast to_datetime up la lo = Inl IndexError"
proof -
  define j where "j = min (length maxs) (min (length mins) (length codes))"
  have j: "j < length ts" using assms(8) by (auto simp add: j_def)
  have split: "[0..<length ts] = [0..<j] @ j # [Suc j..<length ts]"
  proof -
    define k where "k = length ts - j"
    have k: "j + k = length ts" using j by (simp add: k_def)
    have "[0..<j + k] = [0..<j] @ [j..<j + k]"
      by (rule upt_add_eq_append) simp
    then have "[0..<length ts] = [0..<j] @ [j..<length ts]"
      by (simp only: k)
    also have "[j..<length ts] = j # [Suc j..<length ts]"
      using j by (rule upt_conv_Cons)
    finally show ?thesis .
  qed
  have fail: "forecast_entry to_datetime (JObj kvs) j = Inl IndexError"
    using assms(2-6) j _ assms(7) [OF j]
    by (rule forecast_entry_IndexError) (auto simp add: j_def)
  have ok: "forecast_entry to_datetime (JObj kvs) i =
              Inr \<lparr>date = strftime_a_d (stamps ! i), temperature_max = maxs ! i,
                   temperature_min = mins ! i, weathercode = codes ! i\<rparr>"
    if "i \<in> set [0..<j]" for i
  proof -
    from that have ij: "i < j" by simp
    with j have "i < length ts" by simp
    moreover from ij have "i < length maxs" "i < length mins" "i < length codes"
      by (simp_all add: j_def)
    ultimately have "i < length ts" "i < length maxs" "i < length mins" "i < length codes"
      by simp_all
    with assms(2-6) show ?thesis using assms(7) by (intro forecast_entry_Inr) simp_all
  qed
  have "collect (forecast_entry to_datetime (JObj kvs)) [0..<length ts] = Inl IndexError"
    unfolding split using ok fail by (rule collect_first_Inl)
  with assms(1-3) show ?thesis
    by (simp add: get_weather_forecast_def)
qed

subsection \<open>Numbers with four decimals\<close>

lemma decimal_examples: "decimal 51 = ''51''" "decimal 0 = ''0''"
  by (simp_all add: decimal.simps [of 51] decimal.simps [of 5] decimal.simps [of 0] digit_def)

lemma fixed4_of_round:
  assumes "round_half_even (\<bar>x\<bar> * 10000) = int n"
  shows "fixed4 x = (if x < 0 then ''-'' else []) @ decimal (n div 10000) @ ''.''
           @ [digit (n mod 10000 div 1000), digit (n mod 10000 div 100 mod 10),
              digit (n mod 10000 div 10 mod 10), digit (n mod 10000 mod 10)]"
  by (simp add: fixed4_def assms Let_def)

lemma floor_of_latitude:
  "\<lfloor>\<bar>7249022107713221 / 140737488355328\<bar> * 10000 :: rat\<rfloor> = 515073"
  by (rule floor_unique) simp_all

lemma round_of_latitude:
  "round_half_even (\<bar>7249022107713221 / 140737488355328\<bar> * 10000) = int 515074"
  unfolding round_half_even_def Let_def floor_of_latitude by simp

lemma floor_of_longitude:
  "\<lfloor>\<bar>- 4604480259023595 / 36028797018963968\<bar> * 10000 :: rat\<rfloor> = 1277"
  by (rule floor_unique) simp_all

lemma round_of_longitude:
  "round_half_even (\<bar>- 4604480259023595 / 36028797018963968\<bar> * 10000) = int 1278"
  unfolding round_half_even_def Let_def floor_of_longitude by simp

lemma format_of_click:
  "fixed4 (7249022107713221 / 140737488355328) = ''51.5074''"
  "fixed4 (- 4604480259023595 / 36028797018963968) = ''-0.1278''"
  "fixed4 (- (4604480259023595 / 36028797018963968)) = ''-0.1278''"
  using fixed4_of_round [OF round_of_latitude] fixed4_of_round [OF round_of_longitude]
  by (simp_all add: decimal_examples digit_def)

lemma round_half_even_nearest: "\<bar>of_int (round_half_even x) - x\<bar> \<le> 1 / 2"
proof -
  have "of_int \<lfloor>x\<rfloor> \<le> x" "x < of_int \<lfloor>x\<rfloor> + 1" by linarith+
  then show ?thesis by (auto simp add: round_half_even_def Let_def)
qed

lemma weekday_examples:
  "weekday \<lparr>year = 2024, month = 1, day = 15\<rparr> = 0"
  "weekday \<lparr>year = 2024, month = 1, day = 16\<rparr> = 1"
  "weekday \<lparr>year = 2024, month = 1, day = 17\<rparr> = 2"
  "weekday \<lparr>year = 2024, month = 1, day = 18\<rparr> = 3"
  "weekday \<lparr>year = 2024, month = 1, day = 19\<rparr> = 4"
  "weekday \<lparr>year = 2024, month = 2, day = 28\<rparr> = 2"
  "weekday \<lparr>year = 2024, month = 2, day = 29\<rparr> = 3"
  "weekday \<lparr>year = 2024, month = Suc 0, day = 15\<rparr> = 0"
  "weekday \<lparr>year = 2024, month = Suc 0, day = 16\<rparr> = 1"
  "weekday \<lparr>year = 2024, month = Suc 0, day = 17\<rparr> = 2"
  "weekday \<lparr>year = 2024, month = Suc 0, day = 18\<rparr> = 3"
  "weekday \<lparr>year = 2024, month = Suc 0, day = 19\<rparr> = 4"
  by (simp_all add: weekday_def toordinal_def days_before_year_def days_before_month_def
      is_leap_def)

lemma parse_examples:
  "parse_iso_date ''2024-01-15'' = Some \<lparr>year = 2024, month = 1, day = 15\<rparr>"
  "parse_iso_date ''2024-01-16'' = Some \<lparr>year = 2024, month = 1, day = 16\<rparr>"
  "parse_iso_date ''2024-01-17'' = Some \<lparr>year = 2024, month = 1, day = 17\<rparr>"
  "parse_iso_date ''2024-01-18'' = Some \<lparr>year = 2024, month = 1, day = 18\<rparr>"
  "parse_iso_date ''2024-01-19'' = Some \<lparr>year = 2024, month = 1, day = 19\<rparr>"
  "parse_iso_date ''2024-02-28'' = Some \<lparr>year = 2024, month = 2, day = 28\<rparr>"
  "parse_iso_date ''2024-02-29'' = Some \<lparr>year = 2024, month = 2, day = 29\<rparr>"
  by (simp_all add: parse_iso_date_def is_digit_def number_def days_in_month_def is_leap_def)

subsection \<open>The two tabs\<close>


lemma clicked_on_map:
  assumes "map_of md ''last_clicked'' = Some (JObj click)"
    and "map_of click ''lat'' = Some lat"
  shows "clicked (JObj md) = Inr True"
proof -
  from assms(1) have "md \<noteq> []" by auto
  moreover from assms(2) have "click \<noteq> []" by auto
  ultimately show ?thesis using assms(1) by (simp add: clicked_def)
qed

lemma map_tab_click:
  assumes "map_of md ''last_clicked'' = Some (JObj click)"
    and "map_of click ''lat'' = Some lat"
    and "map_of click ''lng'' = Some lon"
    and "format_4f lat = Inr lat_text"
    and "format_4f lon = Inr lon_text"
  shows "map_tab True (JObj md) session =
           Inr ([StWrite [Lit ''Click on the map to select a location:''],
                 StSuccess [Lit ''Selected location: '',
                            Val (JStr (''Lat: '' @ lat_text @ '', Lon: '' @ lon_text))]],
                Some \<lparr>latitude = lat, longitude = lon,
                      name = JStr (''Lat: '' @ lat_text @ '', Lon: '' @ lon_text),
                      country = JStr []\<rparr>)"
  using assms clicked_on_map [OF assms(1,2)] by (simp add: map_tab_def)

lemma map_tab_no_click:
  assumes "FOLIUM_AVAILABLE \<longrightarrow> clicked map_data = Inr False"
  shows "map_tab FOLIUM_AVAILABLE map_data session =
           Inr (if FOLIUM_AVAILABLE
                then [StWrite [Lit ''Click on the map to select a location:'']]
                else [StWarning [Lit ''Map functionality is not available. Please install folium and streamlit-folium to use map selection.''],
                      StInfo [Lit ''You can still use the city search feature above.'']],
                session)"
  using assms by (simp add: map_tab_def)

lemma search_tab_not_found:
  assumes "up (GeocodingSearch city) = Response (JObj kvs)"
    and "map_of kvs ''results'' = None \<or> map_of kvs ''results'' = Some (JArr [])"
    and "city \<noteq> []"
  shows "search_tab up city session =
           Inr ([HttpGet (GeocodingSearch city),
                 StError [Lit (''Could not find location: '' @ quote), Lit city,
                          Lit (quote @ ''. Please try again.'')]], None)"
  using assms by (auto simp add: get_location_coordinates_def search_tab_def)


subsection \<open>The requests of the display\<close>





subsection \<open>A search without a match\<close>

text \<open>
  The claim C6 as it is written fails on a run in which the map reports a click: the
  location of the click is stored after the search tab has emptied the state. The text
  of the error is longer than the one of the claim.
\<close>

theorem not_found_counterexample:
  "run iso_to_datetime nowhere True ''Nonexistentplacexyz123'' clicked_map (Some paris) =
     Inr ([HttpGet (GeocodingSearch ''Nonexistentplacexyz123''),
           StError [Lit (''Could not find location: '' @ quote), Lit ''Nonexistentplacexyz123'',
                    Lit (quote @ ''. Please try again.'')],
           StWrite [Lit ''Click on the map to select a location:''],
           StSuccess [Lit ''Selected location: '', Val (JStr ''Lat: 51.5074, Lon: -0.1278'')],
           StSubheader [Lit ''Weather for '', Val (JStr ''Lat: 51.5074, Lon: -0.1278''),
                        Lit '', '', Val (JStr [])],
           HttpGet (CurrentWeather (JFloat (7249022107713221 / 140737488355328))
                                   (JFloat (- 4604480259023595 / 36028797018963968))),
           StError [Lit ''Could not retrieve weather data for this location.'']],
          Some \<lparr>latitude = JFloat (7249022107713221 / 140737488355328),
                longitude = JFloat (- 4604480259023595 / 36028797018963968),
                name = JStr ''Lat: 51.5074, Lon: -0.1278'', country = JStr []\<rparr>)
   \<and> text_of [Lit (''Could not find location: '' @ quote), Lit ''Nonexistentplacexyz123'',
               Lit (quote @ ''. Please try again.'')]
       \<noteq> Some (''Could not find location: '' @ quote @ ''Nonexistentplacexyz123'' @ quote)"
proof -
  have s: "search_tab nowhere ''Nonexistentplacexyz123'' (Some paris) =
      Inr ([HttpGet (GeocodingSearch ''Nonexistentplacexyz123''),
            StError [Lit (''Could not find location: '' @ quote), Lit ''Nonexistentplacexyz123'',
                     Lit (quote @ ''. Please try again.'')]], None)"
    by (rule search_tab_not_found [of _ _ "[(''generationtime_ms'', JFloat (1 / 2))]"])
      (simp_all add: nowhere_def)
  have m: "map_tab True clicked_map None =
      Inr ([StWrite [Lit ''Click on the map to select a location:''],
            StSuccess [Lit ''Selected location: '', Val (JStr ''Lat: 51.5074, Lon: -0.1278'')]],
           Some \<lparr>latitude = JFloat (7249022107713221 / 140737488355328),
                 longitude = JFloat (- 4604480259023595 / 36028797018963968),
                 name = JStr ''Lat: 51.5074, Lon: -0.1278'', country = JStr []\<rparr>)"
    using map_tab_click [of "[(''last_clicked'',
        JObj [(''lat'', JFloat (7249022107713221 / 140737488355328)),
              (''lng'', JFloat (- 4604480259023595 / 36028797018963968))])]"
        "[(''lat'', JFloat (7249022107713221 / 140737488355328)),
          (''lng'', JFloat (- 4604480259023595 / 36028797018963968))]"
        "JFloat (7249022107713221 / 140737488355328)"
        "JFloat (- 4604480259023595 / 36028797018963968)" "''51.5074''" "''-0.1278''" None]
    by (simp add: clicked_map_def format_of_click)
  show ?thesis
    unfolding run_def s
    by (simp add: m display_def get_weather_data_def nowhere_def)
qed

text \<open>
  C6, as the code has it. A response without a \<^verbatim>\<open>results\<close> field, or with an empty list of
  results: the geocoder returns \<^verbatim>\<open>None\<close>; the search tab shows one error, with the text
  \<^verbatim>\<open>Could not find location: '<name>'. Please try again.\<close>, and sets the stored location
  to \<^verbatim>\<open>None\<close>. The rest of the run goes on from the empty state, whatever was stored
  before: when the map reports no click, nothing is stored at the end of the run and
  nothing is displayed.
\<close>

theorem not_found_clears_location:
  assumes "up (GeocodingSearch city) = Response (JObj kvs)"
    and "map_of kvs ''results'' = None \<or> map_of kvs ''results'' = Some (JArr [])"
    and "city \<noteq> []"
    and "msg = [Lit (''Could not find location: '' @ quote), Lit city,
                Lit (quote @ ''. Please try again.'')]"
  shows "get_location_coordinates up city = Inr ([HttpGet (GeocodingSearch city)], None)
     \<and> search_tab up city session =
           Inr ([HttpGet (GeocodingSearch city), StError msg], None)
     \<and> text_of msg = Some (''Could not find location: '' @ quote @ city @ quote
                             @ ''. Please try again.'')
     \<and> run to_datetime up FOLIUM_AVAILABLE city map_data session =
           bind_exn (map_tab FOLIUM_AVAILABLE map_data None) (\<lambda>(evs2, s2).
           bind_exn (display to_datetime up s2) (\<lambda>evs3.
             Inr ([HttpGet (GeocodingSearch city), StError msg] @ evs2 @ evs3, s2)))
     \<and> ((FOLIUM_AVAILABLE \<longrightarrow> clicked map_data = Inr False) \<longrightarrow>
           run to_datetime up FOLIUM_AVAILABLE city map_data session =
             Inr ([HttpGet (GeocodingSearch city), StError msg]
                  @ (if FOLIUM_AVAILABLE
                     then [StWrite [Lit ''Click on the map to select a location:'']]
                     else [StWarning [Lit ''Map functionality is not available. Please install folium and streamlit-folium to use map selection.''],
                           StInfo [Lit ''You can still use the city search feature above.'']]),
                  None))"
proof -
  have g: "get_location_coordinates up city = Inr ([HttpGet (GeocodingSearch city)], None)"
    using assms(1,2) by (auto simp add: get_location_coordinates_def)
  have s: "search_tab up city session =
             Inr ([HttpGet (GeocodingSearch city), StError msg], None)"
    unfolding assms(4) using assms(1-3) by (rule search_tab_not_found)
  have t: "text_of msg = Some (''Could not find location: '' @ quote @ city @ quote
                             @ ''. Please try again.'')"
    by (simp add: assms(4))
  have r: "run to_datetime up FOLIUM_AVAILABLE city map_data session =
           bind_exn (map_tab FOLIUM_AVAILABLE map_data None) (\<lambda>(evs2, s2).
           bind_exn (display to_datetime up s2) (\<lambda>evs3.
             Inr ([HttpGet (GeocodingSearch city), StError msg] @ evs2 @ evs3, s2)))"
    unfolding run_def s by simp
  have n: "run to_datetime up FOLIUM_AVAILABLE city map_data session =
             Inr ([HttpGet (GeocodingSearch city), StError msg]
                  @ (if FOLIUM_AVAILABLE
                     then [StWrite [Lit ''Click on the map to select a location:'']]
                     else [StWarning [Lit ''Map functionality is not available. Please install folium and streamlit-folium to use map selection.''],
                           StInfo [Lit ''You can still use the city search feature above.'']]),
                  None)"
    if "FOLIUM_AVAILABLE \<longrightarrow> clicked map_data = Inr False"
    unfolding r map_tab_no_click [OF that] by (simp add: display_def)
  from g s t r n show ?thesis by blast
qed

theorem not_found_clears_location_witness:
  "run iso_to_datetime nowhere True ''Nonexistentplacexyz123'' JNull (Some paris) =
     Inr ([HttpGet (GeocodingSearch ''Nonexistentplacexyz123''),
           StError [Lit (''Could not find location: '' @ quote), Lit ''Nonexistentplacexyz123'',
                    Lit (quote @ ''. Please try again.'')],
           StWrite [Lit ''Click on the map to select a location:'']], None)
   \<and> run iso_to_datetime no_results False ''Nonexistentplacexyz123'' clicked_map (Some paris) =
     Inr ([HttpGet (GeocodingSearch ''Nonexistentplacexyz123''),
           StError [Lit (''Could not find location: '' @ quote), Lit ''Nonexistentplacexyz123'',
                    Lit (quote @ ''. Please try again.'')],
           StWarning [Lit ''Map functionality is not available. Please install folium and streamlit-folium to use map selection.''],
           StInfo [Lit ''You can still use the city search feature above.'']], None)"
  using not_found_clears_location [of nowhere "''Nonexistentplacexyz123''"
           "[(''generationtime_ms'', JFloat (1 / 2))]" _ "Some paris" iso_to_datetime True JNull]
     not_found_clears_location [of no_results "''Nonexistentplacexyz123''"
           "[(''results'', JArr [])]" _ "Some paris" iso_to_datetime False clicked_map]
  by (simp add: nowhere_def no_results_def clicked_def map_tab_def display_def)

subsection \<open>A click on the map\<close>




subsection \<open>The forecast\<close>

text \<open>
  C5. A forecast response whose four arrays hold five elements each, the dates in the
  notation \<^verbatim>\<open>YYYY-MM-DD\<close> of the endpoint: the fetcher returns five entries, the entry
  at position \<open>i\<close> made of the elements at position \<open>i\<close> of the arrays, its date the
  three-letter name of the weekday, a space, and the two digits of the day of the month.
\<close>

theorem five_day_forecast:
  assumes "parses_iso to_datetime"
    and "up (DailyForecast la lo) = Response (JObj kvs)"
    and "map_of kvs ''daily'' = Some (JObj daily)"
    and "map_of daily ''time'' = Some (JArr (map JStr ds))"
    and "map_of daily ''temperature_2m_max'' = Some (JArr maxs)"
    and "map_of daily ''temperature_2m_min'' = Some (JArr mins)"
    and "map_of daily ''weathercode'' = Some (JArr codes)"
    and "length ds = 5" "length maxs = 5" "length mins = 5" "length codes = 5"
    and "\<forall>i<5. parse_iso_date (ds ! i) = Some (stamps ! i)"
  shows "get_weather_forecast to_datetime up la lo =
           Inr ([HttpGet (DailyForecast la lo)],
                Some (map (\<lambda>i. \<lparr>date = DAYNAMES ! weekday (stamps ! i) @ '' ''
                                          @ drop 8 (ds ! i),
                                 temperature_max = maxs ! i, temperature_min = mins ! i,
                                 weathercode = codes ! i\<rparr>)
                          [0, 1, 2, 3, 4]))"
proof -
  have stamp: "to_datetime (map JStr ds ! i) = Inr (stamps ! i)"
    if "i < length (map JStr ds)" for i
    using that assms(1,8,12) by (simp add: parses_iso_def)
  have "get_weather_forecast to_datetime up la lo =
           Inr ([HttpGet (DailyForecast la lo)],
                Some (map (\<lambda>i. \<lparr>date = strftime_a_d (stamps ! i), temperature_max = maxs ! i,
                                 temperature_min = mins ! i, weathercode = codes ! i\<rparr>)
                          [0..<length (map JStr ds)]))"
    using assms(2-7) stamp by (rule forecast_of_time_indices) (simp_all add: assms(8-11))
  moreover have "[0..<length (map JStr ds)] = [0, 1, 2, 3, 4]"
    by (simp add: assms(8) upt_rec)
  moreover have "strftime_a_d (stamps ! i) = DAYNAMES ! weekday (stamps ! i) @ '' ''
                                          @ drop 8 (ds ! i)" if "i < 5" for i
  proof -
    from that assms(12) have "parse_iso_date (ds ! i) = Some (stamps ! i)" by simp
    then show ?thesis by (rule label_of_iso_date)
  qed
  ultimately show ?thesis by simp
qed

theorem five_day_forecast_witness:
  "get_weather_forecast iso_to_datetime five_days (JFloat (488566 / 10000))
       (JFloat (23522 / 10000)) =
     Inr ([HttpGet (DailyForecast (JFloat (488566 / 10000)) (JFloat (23522 / 10000)))],
          Some [\<lparr>date = ''Mon 15'', temperature_max = JFloat (71 / 10),
                  temperature_min = JFloat (12 / 10), weathercode = JInt 3\<rparr>,
                \<lparr>date = ''Tue 16'', temperature_max = JFloat (65 / 10),
                  temperature_min = JFloat (- 3 / 10), weathercode = JInt 61\<rparr>,
                \<lparr>date = ''Wed 17'', temperature_max = JInt 4,
                  temperature_min = JInt (- 2), weathercode = JInt 71\<rparr>,
                \<lparr>date = ''Thu 18'', temperature_max = JFloat (38 / 10),
                  temperature_min = JFloat (- 15 / 10), weathercode = JInt 0\<rparr>,
                \<lparr>date = ''Fri 19'', temperature_max = JFloat (52 / 10),
                  temperature_min = JFloat (4 / 10), weathercode = JInt 95\<rparr>])"
proof -
  have dates: "\<forall>i<5. parse_iso_date
      ([''2024-01-15'', ''2024-01-16'', ''2024-01-17'', ''2024-01-18'', ''2024-01-19''] ! i) =
      Some ([\<lparr>year = 2024, month = 1, day = 15\<rparr>, \<lparr>year = 2024, month = 1, day = 16\<rparr>,
             \<lparr>year = 2024, month = 1, day = 17\<rparr>, \<lparr>year = 2024, month = 1, day = 18\<rparr>,
             \<lparr>year = 2024, month = 1, day = 19\<rparr>] ! i)"
  proof (intro allI impI)
    fix i :: nat assume "i < 5"
    then have "i = 0 \<or> i = 1 \<or> i = 2 \<or> i = 3 \<or> i = 4" by arith
    then show "parse_iso_date
      ([''2024-01-15'', ''2024-01-16'', ''2024-01-17'', ''2024-01-18'', ''2024-01-19''] ! i) =
      Some ([\<lparr>year = 2024, month = 1, day = 15\<rparr>, \<lparr>year = 2024, month = 1, day = 16\<rparr>,
             \<lparr>year = 2024, month = 1, day = 17\<rparr>, \<lparr>year = 2024, month = 1, day = 18\<rparr>,
             \<lparr>year = 2024, month = 1, day = 19\<rparr>] ! i)"
      by (elim disjE) (simp_all add: parse_examples)
  qed
  show ?thesis
    using five_day_forecast [where to_datetime = iso_to_datetime and up = five_days
        and la = "JFloat (488566 / 10000)" and lo = "JFloat (23522 / 10000)"
        and kvs = "[(''timezone'', JStr ''Europe/Paris''),
     (''daily'', JObj
        [(''time'', JArr [JStr ''2024-01-15'', JStr ''2024-01-16'', JStr ''2024-01-17'',
                          JStr ''2024-01-18'', JStr ''2024-01-19'']),
         (''temperature_2m_max'', JArr [JFloat (71 / 10), JFloat (65 / 10), JInt 4,
                                        JFloat (38 / 10), JFloat (52 / 10)]),
         (''temperature_2m_min'', JArr [JFloat (12 / 10), JFloat (- 3 / 10), JInt (- 2),
                                        JFloat (- 15 / 10), JFloat (4 / 10)]),
         (''weathercode'', JArr [JInt 3, JInt 61, JInt 71, JInt 0, JInt 95])])]"
        and daily = "[(''time'', JArr [JStr ''2024-01-15'', JStr ''2024-01-16'', JStr ''2024-01-17'',
                          JStr ''2024-01-18'', JStr ''2024-01-19'']),
         (''temperature_2m_max'', JArr [JFloat (71 / 10), JFloat (65 / 10), JInt 4,
                                        JFloat (38 / 10), JFloat (52 / 10)]),
         (''temperature_2m_min'', JArr [JFloat (12 / 10), JFloat (- 3 / 10), JInt (- 2),
                                        JFloat (- 15 / 10), JFloat (4 / 10)]),
         (''weathercode'', JArr [JInt 3, JInt 61, JInt 71, JInt 0, JInt 95])]"
        and ds = "[''2024-01-15'', ''2024-01-16'', ''2024-01-17'', ''2024-01-18'', ''2024-01-19'']"
        and maxs = "[JFloat (71 / 10), JFloat (65 / 10), JInt 4, JFloat (38 / 10), JFloat (52 / 10)]"
        and mins = "[JFloat (12 / 10), JFloat (- 3 / 10), JInt (- 2), JFloat (- 15 / 10),
                     JFloat (4 / 10)]"
        and codes = "[JInt 3, JInt 61, JInt 71, JInt 0, JInt 95]"
        and stamps = "[\<lparr>year = 2024, month = 1, day = 15\<rparr>, \<lparr>year = 2024, month = 1, day = 16\<rparr>,
             \<lparr>year = 2024, month = 1, day = 17\<rparr>, \<lparr>year = 2024, month = 1, day = 18\<rparr>,
             \<lparr>year = 2024, month = 1, day = 19\<rparr>]",
        OF parses_iso_iso_to_datetime _ _ _ _ _ _ _ _ _ _ dates]
    by (simp add: five_days_def forecast_body_def weekday_examples DAYNAMES_def)
qed

text \<open>
  The claim C2 as it is written fails on a response whose list of maxima is shorter than
  its list of dates: the loop runs over the positions of \<^verbatim>\<open>time\<close> and indexes the other
  lists with them.
\<close>

theorem forecast_truncation_counterexample:
  "get_weather_forecast iso_to_datetime short_max (JInt 48) (JInt 2) = Inl IndexError"
proof -
  have stamps: "iso_to_datetime ([JStr ''2024-02-28'', JStr ''2024-02-29''] ! i) =
      Inr ([\<lparr>year = 2024, month = 2, day = 28\<rparr>, \<lparr>year = 2024, month = 2, day = 29\<rparr>] ! i)"
    if "i < length [JStr ''2024-02-28'', JStr ''2024-02-29'']" for i
  proof -
    from that have "i = 0 \<or> i = 1" by auto
    then show ?thesis by (elim disjE) (simp_all add: parse_examples)
  qed
  show ?thesis
    by (rule forecast_short_array [where kvs = "[(''daily'', JObj
        [(''time'', JArr [JStr ''2024-02-28'', JStr ''2024-02-29'']),
         (''temperature_2m_max'', JArr [JInt 9]),
         (''temperature_2m_min'', JArr [JInt 1, JInt 2]),
         (''weathercode'', JArr [JInt 0, JInt 1])])]"
        and daily = "[(''time'', JArr [JStr ''2024-02-28'', JStr ''2024-02-29'']),
         (''temperature_2m_max'', JArr [JInt 9]),
         (''temperature_2m_min'', JArr [JInt 1, JInt 2]),
         (''weathercode'', JArr [JInt 0, JInt 1])]"
        and maxs = "[JInt 9]" and mins = "[JInt 1, JInt 2]" and codes = "[JInt 0, JInt 1]",
        OF _ _ _ _ _ _ stamps])
      (simp_all add: short_max_def)
qed

text \<open>
  C2, as the code has it. The fetcher makes one entry for each element of \<^verbatim>\<open>time\<close>. When
  none of the three other lists is shorter than \<^verbatim>\<open>time\<close>, it returns these entries and
  leaves the further elements of the longer lists out; when one of them is shorter, it
  raises \<^verbatim>\<open>IndexError\<close> at the first position that the list lacks.
\<close>

theorem forecast_unequal_lengths:
  assumes "parses_iso to_datetime"
    and "up (DailyForecast la lo) = Response (JObj kvs)"
    and "map_of kvs ''daily'' = Some (JObj daily)"
    and "map_of daily ''time'' = Some (JArr (map JStr ds))"
    and "map_of daily ''temperature_2m_max'' = Some (JArr maxs)"
    and "map_of daily ''temperature_2m_min'' = Some (JArr mins)"
    and "map_of daily ''weathercode'' = Some (JArr codes)"
    and "\<forall>i<length ds. parse_iso_date (ds ! i) = Some (stamps ! i)"
  shows "(length ds \<le> length maxs \<and> length ds \<le> length mins \<and> length ds \<le> length codes \<longrightarrow>
           get_weather_forecast to_datetime up la lo =
             Inr ([HttpGet (DailyForecast la lo)],
                  Some (map (\<lambda>i. \<lparr>date = DAYNAMES ! weekday (stamps ! i) @ '' ''
                                            @ drop 8 (ds ! i),
                                   temperature_max = maxs ! i, temperature_min = mins ! i,
                                   weathercode = codes ! i\<rparr>)
                            [0..<length ds])))
     \<and> (length maxs < length ds \<or> length mins < length ds \<or> length codes < length ds \<longrightarrow>
           get_weather_forecast to_datetime up la lo = Inl IndexError)"
proof (intro conjI impI)
  have stamp: "to_datetime (map JStr ds ! i) = Inr (stamps ! i)"
    if "i < length (map JStr ds)" for i
    using that assms(1,8) by (simp add: parses_iso_def)
  {
    assume le: "length ds \<le> length maxs \<and> length ds \<le> length mins
                  \<and> length ds \<le> length codes"
    have "get_weather_forecast to_datetime up la lo =
           Inr ([HttpGet (DailyForecast la lo)],
                Some (map (\<lambda>i. \<lparr>date = strftime_a_d (stamps ! i), temperature_max = maxs ! i,
                                 temperature_min = mins ! i, weathercode = codes ! i\<rparr>)
                          [0..<length (map JStr ds)]))"
      using assms(2-7) stamp by (rule forecast_of_time_indices) (simp_all add: le)
    moreover have "strftime_a_d (stamps ! i) = DAYNAMES ! weekday (stamps ! i) @ '' ''
                                          @ drop 8 (ds ! i)" if "i < length ds" for i
    proof -
      from that assms(8) have "parse_iso_date (ds ! i) = Some (stamps ! i)" by simp
      then show ?thesis by (rule label_of_iso_date)
    qed
    ultimately show "get_weather_forecast to_datetime up la lo =
             Inr ([HttpGet (DailyForecast la lo)],
                  Some (map (\<lambda>i. \<lparr>date = DAYNAMES ! weekday (stamps ! i) @ '' ''
                                            @ drop 8 (ds ! i),
                                   temperature_max = maxs ! i, temperature_min = mins ! i,
                                   weathercode = codes ! i\<rparr>)
                            [0..<length ds]))"
      by simp
  }
  {
    assume "length maxs < length ds \<or> length mins < length ds \<or> length codes < length ds"
    then have "length maxs < length (map JStr ds) \<or> length mins < length (map JStr ds)
                 \<or> length codes < length (map JStr ds)"
      by simp
    with assms(2-7) stamp show "get_weather_forecast to_datetime up la lo = Inl IndexError"
      by (rule forecast_short_array)
  }
qed

theorem forecast_unequal_lengths_witness:
  "get_weather_forecast iso_to_datetime longer_others (JInt 48) (JInt 2) =
     Inr ([HttpGet (DailyForecast (JInt 48) (JInt 2))],
          Some [\<lparr>date = ''Wed 28'', temperature_max = JInt 9, temperature_min = JInt 1,
                  weathercode = JInt 0\<rparr>,
                \<lparr>date = ''Thu 29'', temperature_max = JInt 8, temperature_min = JInt 2,
                  weathercode = JInt 1\<rparr>])
   \<and> get_weather_forecast iso_to_datetime short_max (JInt 48) (JInt 2) = Inl IndexError"
proof -
  have dates: "\<forall>i<length [''2024-02-28'', ''2024-02-29''].
      parse_iso_date ([''2024-02-28'', ''2024-02-29''] ! i) =
      Some ([\<lparr>year = 2024, month = 2, day = 28\<rparr>, \<lparr>year = 2024, month = 2, day = 29\<rparr>] ! i)"
  proof (intro allI impI)
    fix i :: nat assume "i < length [''2024-02-28'', ''2024-02-29'']"
    then have "i = 0 \<or> i = 1" by auto
    then show "parse_iso_date ([''2024-02-28'', ''2024-02-29''] ! i) =
      Some ([\<lparr>year = 2024, month = 2, day = 28\<rparr>, \<lparr>year = 2024, month = 2, day = 29\<rparr>] ! i)"
      by (elim disjE) (simp_all add: parse_examples)
  qed
  have a: "get_weather_forecast iso_to_datetime longer_others (JInt 48) (JInt 2) =
     Inr ([HttpGet (DailyForecast (JInt 48) (JInt 2))],
          Some [\<lparr>date = ''Wed 28'', temperature_max = JInt 9, temperature_min = JInt 1,
                  weathercode = JInt 0\<rparr>,
                \<lparr>date = ''Thu 29'', temperature_max = JInt 8, temperature_min = JInt 2,
                  weathercode = JInt 1\<rparr>])"
    using forecast_unequal_lengths [where to_datetime = iso_to_datetime and up = longer_others
        and la = "JInt 48" and lo = "JInt 2"
        and kvs = "[(''daily'', JObj
        [(''time'', JArr [JStr ''2024-02-28'', JStr ''2024-02-29'']),
         (''temperature_2m_max'', JArr [JInt 9, JInt 8, JInt 7]),
         (''temperature_2m_min'', JArr [JInt 1, JInt 2, JInt 3]),
         (''weathercode'', JArr [JInt 0, JInt 1, JInt 2, JInt 3])])]"
        and daily = "[(''time'', JArr [JStr ''2024-02-28'', JStr ''2024-02-29'']),
         (''temperature_2m_max'', JArr [JInt 9, JInt 8, JInt 7]),
         (''temperature_2m_min'', JArr [JInt 1, JInt 2, JInt 3]),
         (''weathercode'', JArr [JInt 0, JInt 1, JInt 2, JInt 3])]"
        and ds = "[''2024-02-28'', ''2024-02-29'']"
        and maxs = "[JInt 9, JInt 8, JInt 7]" and mins = "[JInt 1, JInt 2, JInt 3]"
        and codes = "[JInt 0, JInt 1, JInt 2, JInt 3]"
        and stamps = "[\<lparr>year = 2024, month = 2, day = 28\<rparr>, \<lparr>year = 2024, month = 2, day = 29\<rparr>]",
        OF parses_iso_iso_to_datetime _ _ _ _ _ _ dates, THEN conjunct1]
    by (simp add: longer_others_def weekday_examples DAYNAMES_def upt_rec)
  have b: "get_weather_forecast iso_to_datetime short_max (JInt 48) (JInt 2) = Inl IndexError"
    using forecast_unequal_lengths [where to_datetime = iso_to_datetime and up = short_max
        and la = "JInt 48" and lo = "JInt 2"
        and kvs = "[(''daily'', JObj
        [(''time'', JArr [JStr ''2024-02-28'', JStr ''2024-02-29'']),
         (''temperature_2m_max'', JArr [JInt 9]),
         (''temperature_2m_min'', JArr [JInt 1, JInt 2]),
         (''weathercode'', JArr [JInt 0, JInt 1])])]"
        and daily = "[(''time'', JArr [JStr ''2024-02-28'', JStr ''2024-02-29'']),
         (''temperature_2m_max'', JArr [JInt 9]),
         (''temperature_2m_min'', JArr [JInt 1, JInt 2]),
         (''weathercode'', JArr [JInt 0, JInt 1])]"
        and ds = "[''2024-02-28'', ''2024-02-29'']"
        and maxs = "[JInt 9]" and mins = "[JInt 1, JInt 2]"
        and codes = "[JInt 0, JInt 1]"
        and stamps = "[\<lparr>year = 2024, month = 2, day = 28\<rparr>, \<lparr>year = 2024, month = 2, day = 29\<rparr>]",
        OF parses_iso_iso_to_datetime _ _ _ _ _ _ dates, THEN conjunct2]
    by (simp add: short_max_def)
  from a b show ?thesis by (rule conjI)
qed

subsection \<open>The display of a location\<close>

text \<open>
  The claim C3 as it is written fails on a location whose current weather cannot be
  fetched while the forecast endpoint answers: the page shows two errors, and the
  forecast is neither requested nor shown.
\<close>

theorem current_failure_counterexample:
  "display iso_to_datetime weather_down (Some paris) =
     Inr [StSubheader [Lit ''Weather for '', Val (JStr ''Paris''), Lit '', '',
                       Val (JStr ''France'')],
          HttpGet (CurrentWeather (JFloat (488566 / 10000)) (JFloat (23522 / 10000))),
          StError [Lit ''Error fetching weather data: '', Lit ''Connection timed out''],
          StError [Lit ''Could not retrieve weather data for this location.'']]
   \<and> get_weather_forecast iso_to_datetime weather_down (JFloat (488566 / 10000))
         (JFloat (23522 / 10000)) =
     get_weather_forecast iso_to_datetime five_days (JFloat (488566 / 10000))
         (JFloat (23522 / 10000))"
  by (simp add: display_def get_weather_data_def get_weather_forecast_def weather_down_def
      five_days_def paris_def)

text \<open>
  C3, as the code has it. The forecast is requested inside the branch of a current
  weather. When the request for the current weather fails, the page shows the error of
  the fetcher and the error of the display, two messages, and no forecast and no request
  for it; when the response has no block of current weather, or an empty one, it shows
  the one error of the display, and again no forecast.
\<close>

theorem current_failure_hides_forecast:
  "(up (CurrentWeather (latitude l) (longitude l)) = RequestException e \<longrightarrow>
      display to_datetime up (Some l) =
        Inr [StSubheader [Lit ''Weather for '', Val (name l), Lit '', '', Val (country l)],
             HttpGet (CurrentWeather (latitude l) (longitude l)),
             StError [Lit ''Error fetching weather data: '', Lit e],
             StError [Lit ''Could not retrieve weather data for this location.'']])
   \<and> (up (CurrentWeather (latitude l) (longitude l)) = Response (JObj kvs)
        \<and> (map_of kvs ''current_weather'' = None
             \<or> (\<exists>w. map_of kvs ''current_weather'' = Some w \<and> \<not> truthy w)) \<longrightarrow>
      display to_datetime up (Some l) =
        Inr [StSubheader [Lit ''Weather for '', Val (name l), Lit '', '', Val (country l)],
             HttpGet (CurrentWeather (latitude l) (longitude l)),
             StError [Lit ''Could not retrieve weather data for this location.'']])"
  by (auto simp add: display_def get_weather_data_def)

theorem current_failure_hides_forecast_witness:
  "display iso_to_datetime weather_down (Some paris) =
     Inr [StSubheader [Lit ''Weather for '', Val (JStr ''Paris''), Lit '', '',
                       Val (JStr ''France'')],
          HttpGet (CurrentWeather (JFloat (488566 / 10000)) (JFloat (23522 / 10000))),
          StError [Lit ''Error fetching weather data: '', Lit ''Connection timed out''],
          StError [Lit ''Could not retrieve weather data for this location.'']]
   \<and> display iso_to_datetime nowhere (Some paris) =
     Inr [StSubheader [Lit ''Weather for '', Val (JStr ''Paris''), Lit '', '',
                       Val (JStr ''France'')],
          HttpGet (CurrentWeather (JFloat (488566 / 10000)) (JFloat (23522 / 10000))),
          StError [Lit ''Could not retrieve weather data for this location.'']]"
  using current_failure_hides_forecast [of weather_down paris "''Connection timed out''"
      iso_to_datetime "[]"]
    current_failure_hides_forecast [of nowhere paris "[]" iso_to_datetime
      "[(''generationtime_ms'', JFloat (1 / 2))]"]
  by (simp add: weather_down_def nowhere_def paris_def)




end
